theory Spec2Isabelle
  imports Complex_Main "HOL-Library.Monad_Syntax"
begin

section \<open>JavaScript numbers\<close>

text \<open>
  The calculators compute on the JavaScript type \<open>number\<close>. The model keeps the four
  kinds of value of that type apart: a finite value, the two infinities and NaN. A finite
  value is idealised as a real number: the arithmetic on finite values is exact, so the
  rounding error of the binary format and the overflow of a huge finite result to an
  infinity are not modelled. The model has a single zero: the negative zero of the format
  differs from it only in the sign of the infinity that a division by it yields.

  Every operator below follows the ECMAScript definition of the operator of the same name
  on these four kinds of value. In particular a division by zero does not fail and is not
  zero: it yields an infinity, or NaN for \<open>0 / 0\<close>.
\<close>

datatype number = Num real | PInf | NInf | NaN

instantiation number :: "{uminus, plus, minus, times, inverse}"
begin

fun uminus_number :: "number \<Rightarrow> number" where
  "uminus_number (Num a) = Num (- a)"
| "uminus_number PInf = NInf"
| "uminus_number NInf = PInf"
| "uminus_number NaN = NaN"

fun plus_number :: "number \<Rightarrow> number \<Rightarrow> number" where
  "plus_number NaN y = NaN"
| "plus_number x NaN = NaN"
| "plus_number (Num a) (Num b) = Num (a + b)"
| "plus_number PInf NInf = NaN"
| "plus_number NInf PInf = NaN"
| "plus_number PInf y = PInf"
| "plus_number NInf y = NInf"
| "plus_number x PInf = PInf"
| "plus_number x NInf = NInf"

definition minus_number :: "number \<Rightarrow> number \<Rightarrow> number" where
  "minus_number x y = x + (- y)"

fun times_number :: "number \<Rightarrow> number \<Rightarrow> number" where
  "times_number NaN y = NaN"
| "times_number x NaN = NaN"
| "times_number (Num a) (Num b) = Num (a * b)"
| "times_number (Num a) PInf = (if a = 0 then NaN else if 0 < a then PInf else NInf)"
| "times_number (Num a) NInf = (if a = 0 then NaN else if 0 < a then NInf else PInf)"
| "times_number PInf (Num b) = (if b = 0 then NaN else if 0 < b then PInf else NInf)"
| "times_number NInf (Num b) = (if b = 0 then NaN else if 0 < b then NInf else PInf)"
| "times_number PInf PInf = PInf"
| "times_number PInf NInf = NInf"
| "times_number NInf PInf = NInf"
| "times_number NInf NInf = PInf"

fun divide_number :: "number \<Rightarrow> number \<Rightarrow> number" where
  "divide_number NaN y = NaN"
| "divide_number x NaN = NaN"
| "divide_number (Num a) (Num b) =
     (if b = 0 then (if a = 0 then NaN else if 0 < a then PInf else NInf)
      else Num (a / b))"
| "divide_number (Num a) PInf = Num 0"
| "divide_number (Num a) NInf = Num 0"
| "divide_number PInf (Num b) = (if 0 \<le> b then PInf else NInf)"
| "divide_number NInf (Num b) = (if 0 \<le> b then NInf else PInf)"
| "divide_number PInf PInf = NaN"
| "divide_number PInf NInf = NaN"
| "divide_number NInf PInf = NaN"
| "divide_number NInf NInf = NaN"

definition inverse_number :: "number \<Rightarrow> number" where
  "inverse_number x = Num 1 div x"

instance ..

end

text \<open>The comparisons \<open>===\<close>, \<open><=\<close> and \<open>>=\<close>: each is false when an operand is NaN.\<close>

fun js_strict_eq :: "number \<Rightarrow> number \<Rightarrow> bool" where
  "js_strict_eq NaN y = False"
| "js_strict_eq x NaN = False"
| "js_strict_eq x y = (x = y)"

fun js_le :: "number \<Rightarrow> number \<Rightarrow> bool" where
  "js_le NaN y = False"
| "js_le x NaN = False"
| "js_le (Num a) (Num b) = (a \<le> b)"
| "js_le NInf y = True"
| "js_le x PInf = True"
| "js_le PInf y = False"
| "js_le x NInf = False"

definition js_ge :: "number \<Rightarrow> number \<Rightarrow> bool" where
  "js_ge x y = js_le y x"

text \<open>
  \<open>Math.round\<close> rounds to the nearest integer, a tie towards plus infinity:
  \<open>\<lfloor>x + 1/2\<rfloor>\<close>, which is \<^const>\<open>round\<close>. Infinities and NaN are returned as they are.
\<close>

fun Math_round :: "number \<Rightarrow> number" where
  "Math_round (Num a) = Num (of_int (round a))"
| "Math_round x = x"

text \<open>\<open>Math.max\<close> and \<open>Math.min\<close> on two arguments: NaN when an argument is NaN.\<close>

fun Math_max :: "number \<Rightarrow> number \<Rightarrow> number" where
  "Math_max NaN y = NaN"
| "Math_max x NaN = NaN"
| "Math_max x y = (if js_le x y then y else x)"


text \<open>
  \<open>Math.pow\<close>, by the cases of the ECMAScript operation \<open>Number::exponentiate\<close>. On
  finite operands: an integral exponent is a repeated product or its reciprocal (with
  \<open>0\<close> to a negative power being plus infinity), a negative base with a fractional
  exponent is NaN, and a positive base with a fractional exponent is the real power.
\<close>

definition is_integral :: "real \<Rightarrow> bool" where
  "is_integral y = (of_int \<lfloor>y\<rfloor> = y)"

definition is_odd_integral :: "real \<Rightarrow> bool" where
  "is_odd_integral y = (is_integral y \<and> odd \<lfloor>y\<rfloor>)"

fun Math_pow :: "number \<Rightarrow> number \<Rightarrow> number" where
  "Math_pow x NaN = NaN"
| "Math_pow x (Num b) =
     (if b = 0 then Num 1
      else case x of
        NaN \<Rightarrow> NaN
      | PInf \<Rightarrow> (if 0 < b then PInf else Num 0)
      | NInf \<Rightarrow> (if 0 < b then (if is_odd_integral b then NInf else PInf) else Num 0)
      | Num a \<Rightarrow>
          (if a = 0 then (if 0 < b then Num 0 else PInf)
           else if is_integral b then Num (a powi \<lfloor>b\<rfloor>)
           else if a < 0 then NaN
           else Num (a powr b)))"
| "Math_pow x PInf =
     (case x of
        NaN \<Rightarrow> NaN
      | PInf \<Rightarrow> PInf
      | NInf \<Rightarrow> PInf
      | Num a \<Rightarrow> (if 1 < \<bar>a\<bar> then PInf else if \<bar>a\<bar> = 1 then NaN else Num 0))"
| "Math_pow x NInf =
     (case x of
        NaN \<Rightarrow> NaN
      | PInf \<Rightarrow> Num 0
      | NInf \<Rightarrow> Num 0
      | Num a \<Rightarrow> (if 1 < \<bar>a\<bar> then Num 0 else if \<bar>a\<bar> = 1 then NaN else PInf))"

section \<open>utils/calculations.ts\<close>

subsection \<open>calculateEMI\<close>

record EMIResult =
  emi :: number
  totalAmount :: number
  totalInterest :: number

text \<open>
  The parameter \<open>principal\<close> is written \<open>principal'\<close>: the plain name is a constant of
  the library.
\<close>

definition calculateEMI :: "number \<Rightarrow> number \<Rightarrow> number \<Rightarrow> EMIResult" where
  "calculateEMI principal' rate tenure =
     (let monthlyRate = rate / (Num 12 * Num 100);
          months = tenure * Num 12
      in if js_strict_eq monthlyRate (Num 0) then
           \<lparr>emi = principal' / months,
            totalAmount = principal',
            totalInterest = Num 0\<rparr>
         else
           let emi = (principal' * monthlyRate * Math_pow (Num 1 + monthlyRate) months) /
                      (Math_pow (Num 1 + monthlyRate) months - Num 1)
           in \<lparr>emi = Math_round emi,
               totalAmount = Math_round (emi * months),
               totalInterest = Math_round ((emi * months) - principal')\<rparr>)"


subsection \<open>calculatePPF\<close>





subsection \<open>calculateIncomeTax\<close>

datatype regime = Old | New




subsection \<open>calculateHRAExemption\<close>




section \<open>calculators/LoanAmortizationCalculator.tsx\<close>

record AmortizationRow =
  month :: number
  emi :: number
  principalPayment :: number
  interestPayment :: number
  remainingBalance :: number
  cumulativePrincipal :: number
  cumulativeInterest :: number

text \<open>
  The loop \<open>for (let month = 1; month <= totalMonths; month++)\<close> of
  generateAmortizationSchedule. Its state is the counter, the three running variables
  and the schedule built so far; \<open>schedule.push\<close> appends a row. The loop does not end
  when \<open>totalMonths\<close> is plus infinity: the result is \<open>None\<close> there.
\<close>

partial_function (option) amortization_loop ::
  "number \<Rightarrow> number \<Rightarrow> number \<Rightarrow> nat \<Rightarrow> number \<Rightarrow> number \<Rightarrow> number \<Rightarrow>
   AmortizationRow list \<Rightarrow> AmortizationRow list option" where
  "amortization_loop emi' monthlyRate totalMonths month' balance cumPrincipal cumInterest schedule =
     (if js_le (Num (real month')) totalMonths then
        let interestPayment = balance * monthlyRate;
            principalPayment = emi' - interestPayment;
            remainingBalance = Math_max (Num 0) (balance - principalPayment);
            cumulativePrincipal = cumPrincipal + principalPayment;
            cumulativeInterest = cumInterest + interestPayment
        in amortization_loop emi' monthlyRate totalMonths (Suc month')
             remainingBalance cumulativePrincipal cumulativeInterest
             (schedule @
              [\<lparr>month = Num (real month'),
                emi = Math_round emi',
                principalPayment = Math_round principalPayment,
                interestPayment = Math_round interestPayment,
                remainingBalance = Math_round remainingBalance,
                cumulativePrincipal = Math_round cumulativePrincipal,
                cumulativeInterest = Math_round cumulativeInterest\<rparr>])
      else Some schedule)"

definition generateAmortizationSchedule ::
  "number \<Rightarrow> number \<Rightarrow> number \<Rightarrow> AmortizationRow list option" where
  "generateAmortizationSchedule loanAmount interestRate loanTenure =
     (let monthlyRate = interestRate / (Num 12 * Num 100);
          totalMonths = loanTenure * Num 12;
          emi = (loanAmount * monthlyRate * Math_pow (Num 1 + monthlyRate) totalMonths) /
                (Math_pow (Num 1 + monthlyRate) totalMonths - Num 1)
      in amortization_loop emi monthlyRate totalMonths 1 loanAmount (Num 0) (Num 0) [])"


text \<open>
  The rows that the loop appends in \<open>d\<close> rounds when its state is finite: \<open>e\<close> the
  instalment, \<open>r\<close> the monthly rate, \<open>m\<close> the counter, \<open>b\<close> the balance and
  \<open>cp\<close>, \<open>ci\<close> the two running sums. The lemma \<open>amortization_loop_finite\<close> below
  shows that the loop returns the schedule extended by exactly these rows.
\<close>

fun schedule_rows :: "real \<Rightarrow> real \<Rightarrow> nat \<Rightarrow> nat \<Rightarrow> real \<Rightarrow> real \<Rightarrow> real \<Rightarrow> AmortizationRow list" where
  "schedule_rows e r m 0 b cp ci = []"
| "schedule_rows e r m (Suc d) b cp ci =
     \<lparr>month = Num (real m),
      emi = Num (of_int (round e)),
      principalPayment = Num (of_int (round (e - b * r))),
      interestPayment = Num (of_int (round (b * r))),
      remainingBalance = Num (of_int (round (max 0 (b - (e - b * r))))),
      cumulativePrincipal = Num (of_int (round (cp + (e - b * r)))),
      cumulativeInterest = Num (of_int (round (ci + b * r)))\<rparr> #
     schedule_rows e r (Suc m) d (max 0 (b - (e - b * r))) (cp + (e - b * r)) (ci + b * r)"

section \<open>The input schemas and the submit handlers\<close>

text \<open>
  The schemas are built with the validation library zod, which is not part of the
  repository. What the model takes from its documentation: \<open>z.number()\<close> rejects NaN
  with a type issue and then runs no further check, while an infinity passes the type
  check and is compared like any other value; \<open>.min(v, msg)\<close> raises the issue
  \<open>msg\<close> unless the value is \<open>>= v\<close> and \<open>.max(v, msg)\<close> unless it is \<open><= v\<close>, both
  bounds inclusive; the value is accepted when no issue was raised.
\<close>

datatype z_check = ZMin real string | ZMax real string

fun run_check :: "number \<Rightarrow> z_check \<Rightarrow> string list" where
  "run_check x (ZMin v msg) = (if js_ge x (Num v) then [] else [msg])"
| "run_check x (ZMax v msg) = (if js_le x (Num v) then [] else [msg])"

fun z_number :: "z_check list \<Rightarrow> number \<Rightarrow> string list" where
  "z_number cs NaN = [''Expected number, received nan'']"
| "z_number cs x = concat (map (run_check x) cs)"

record LoanFormData =
  loanAmount :: number
  interestRate :: number
  loanTenure :: number

text \<open>An issue is the name of the field and the message shown under it.\<close>

type_synonym issue = "string \<times> string"

definition z_object :: "(string \<times> (LoanFormData \<Rightarrow> string list)) list \<Rightarrow> LoanFormData \<Rightarrow> issue list" where
  "z_object shape data = concat (map (\<lambda>(name, validate). map (Pair name) (validate data)) shape)"

definition amortizationSchema :: "LoanFormData \<Rightarrow> issue list" where
  "amortizationSchema = z_object
     [(''loanAmount'', \<lambda>d. z_number [ZMin 1 ''Loan amount must be greater than 0''] (loanAmount d)),
      (''interestRate'', \<lambda>d. z_number [ZMin 0.1 ''Interest rate must be at least 0.1%'',
                                         ZMax 50 ''Interest rate cannot exceed 50%''] (interestRate d)),
      (''loanTenure'', \<lambda>d. z_number [ZMin 1 ''Loan tenure must be at least 1 year'',
                                       ZMax 50 ''Loan tenure cannot exceed 50 years''] (loanTenure d))]"

definition emiSchema :: "LoanFormData \<Rightarrow> issue list" where
  "emiSchema = z_object
     [(''loanAmount'', \<lambda>d. z_number [ZMin 1 ''Loan amount must be greater than 0''] (loanAmount d)),
      (''interestRate'', \<lambda>d. z_number [ZMin 0.1 ''Interest rate must be at least 0.1%'',
                                         ZMax 50 ''Interest rate cannot exceed 50%''] (interestRate d)),
      (''loanTenure'', \<lambda>d. z_number [ZMin 1 ''Loan tenure must be at least 1 year'',
                                       ZMax 50 ''Loan tenure cannot exceed 50 years''] (loanTenure d))]"

text \<open>
  \<open>form.handleSubmit(onSubmit)\<close> of react-hook-form with a resolver: the resolver runs
  first; with issues, they are shown under their fields and \<open>onSubmit\<close> is not called;
  without, \<open>onSubmit\<close> is called on the data.
\<close>

definition handleSubmit ::
  "(LoanFormData \<Rightarrow> issue list) \<Rightarrow> (LoanFormData \<Rightarrow> 'r) \<Rightarrow> LoanFormData \<Rightarrow> issue list + 'r" where
  "handleSubmit resolver onSubmit data =
     (case resolver data of [] \<Rightarrow> Inr (onSubmit data) | issues \<Rightarrow> Inl issues)"

text \<open>The handler of the EMI calculator: the result that \<open>setResult\<close> stores.\<close>

definition emi_onSubmit :: "LoanFormData \<Rightarrow> EMIResult" where
  "emi_onSubmit data = calculateEMI (loanAmount data) (interestRate data) (loanTenure data)"

text \<open>
  The handler of the amortization calculator: the schedule that \<open>setSchedule\<close> stores
  and the summary that \<open>setSummary\<close> stores, the result of calculateEMI extended by
  three fields.
\<close>

record Summary = EMIResult +
  totalMonths :: number
  avgMonthlyPrincipal :: number
  avgMonthlyInterest :: number

definition amortization_onSubmit :: "LoanFormData \<Rightarrow> (AmortizationRow list \<times> Summary) option" where
  "amortization_onSubmit data =
     (let emiResult = calculateEMI (loanAmount data) (interestRate data) (loanTenure data)
      in do {
        fullSchedule \<leftarrow> generateAmortizationSchedule (loanAmount data) (interestRate data) (loanTenure data);
        Some (fullSchedule,
              EMIResult.extend emiResult
                (Summary.fields
                  (loanTenure data * Num 12)
                  (Math_round (loanAmount data / (loanTenure data * Num 12)))
                  (Math_round (totalInterest emiResult / (loanTenure data * Num 12)))))
      })"

text \<open>The ranges of the spec for the three fields of the loan forms.\<close>

definition amount_ok :: "number \<Rightarrow> bool" where
  "amount_ok x = js_ge x (Num 1)"

definition rate_ok :: "number \<Rightarrow> bool" where
  "rate_ok x = (js_ge x (Num 0.1) \<and> js_le x (Num 50))"

definition tenure_ok :: "number \<Rightarrow> bool" where
  "tenure_ok x = (js_ge x (Num 1) \<and> js_le x (Num 50))"

definition in_range :: "LoanFormData \<Rightarrow> bool" where
  "in_range d = (amount_ok (loanAmount d) \<and> rate_ok (interestRate d) \<and> tenure_ok (loanTenure d))"

section \<open>Properties\<close>

lemma Num_minus [simp]: "Num a - Num b = Num (a - b)"
  by (simp add: minus_number_def)

subsection \<open>Facts about the number operations\<close>

lemma is_integral_of_nat [simp]: "is_integral (real n)"
  by (simp add: is_integral_def)





subsection \<open>calculateEMI\<close>








text \<open>
  C9. A call of calculateEMI with the annual rate 0 and a positive tenure takes the
  zero-rate branch, for every principal: the instalment is the principal divided by the
  number of months (not rounded), the total amount is the principal and the total
  interest is 0. The quotient of the general formula, whose divisor would be 0 there, is
  not part of the result.
\<close>

theorem calculateEMI_zero_rate:
  assumes "0 < tenure"
  shows "calculateEMI p (Num 0) (Num tenure) =
           \<lparr>EMIResult.emi = p / Num (12 * tenure), totalAmount = p, totalInterest = Num 0\<rparr>"
  by (simp add: calculateEMI_def Let_def mult.commute)

theorem calculateEMI_zero_rate_witness:
  "(0::real) < 10 \<and> calculateEMI (Num 1200000) (Num 0) (Num 10) =
     \<lparr>EMIResult.emi = Num 10000, totalAmount = Num 1200000, totalInterest = Num 0\<rparr>"
  using calculateEMI_zero_rate [of 10 "Num 1200000"] by simp

subsection \<open>calculatePPF\<close>









subsection \<open>calculateIncomeTax\<close>




subsection \<open>calculateHRAExemption\<close>



subsection \<open>The input schemas\<close>

lemma z_number_min: "z_number [ZMin a m] x = [] \<longleftrightarrow> js_ge x (Num a)"
  by (cases x) (simp_all add: js_ge_def)

lemma z_number_min_max:
  "z_number [ZMin a m, ZMax b m'] x = [] \<longleftrightarrow> js_ge x (Num a) \<and> js_le x (Num b)"
  by (cases x) (simp_all add: js_ge_def)

lemma issues_of_field: "fst ` set (map (Pair name) ms) = (if ms = [] then {} else {name})"
  by (cases ms) auto

lemma schema_issues:
  "schema = emiSchema \<or> schema = amortizationSchema \<Longrightarrow>
   schema d =
     map (Pair ''loanAmount'') (z_number [ZMin 1 ''Loan amount must be greater than 0''] (loanAmount d)) @
     map (Pair ''interestRate'') (z_number [ZMin 0.1 ''Interest rate must be at least 0.1%'',
                                         ZMax 50 ''Interest rate cannot exceed 50%''] (interestRate d)) @
     map (Pair ''loanTenure'') (z_number [ZMin 1 ''Loan tenure must be at least 1 year'',
                                       ZMax 50 ''Loan tenure cannot exceed 50 years''] (loanTenure d))"
  by (auto simp: emiSchema_def amortizationSchema_def z_object_def)

lemma schema_accepts:
  assumes "schema = emiSchema \<or> schema = amortizationSchema"
  shows "(''loanAmount'' \<notin> fst ` set (schema d) \<longleftrightarrow> amount_ok (loanAmount d)) \<and>
         (''interestRate'' \<notin> fst ` set (schema d) \<longleftrightarrow> rate_ok (interestRate d)) \<and>
         (''loanTenure'' \<notin> fst ` set (schema d) \<longleftrightarrow> tenure_ok (loanTenure d)) \<and>
         (schema d = [] \<longleftrightarrow> in_range d) \<and>
         handleSubmit schema onSubmit d = (if in_range d then Inr (onSubmit d) else Inl (schema d))"
proof -
  note s = schema_issues [OF assms, of d]
  have a: "''loanAmount'' \<notin> fst ` set (schema d) \<longleftrightarrow> amount_ok (loanAmount d)"
    unfolding s set_append image_Un issues_of_field amount_ok_def
    by (simp add: z_number_min)
  have r: "''interestRate'' \<notin> fst ` set (schema d) \<longleftrightarrow> rate_ok (interestRate d)"
    unfolding s set_append image_Un issues_of_field rate_ok_def
    by (simp add: z_number_min_max)
  have t: "''loanTenure'' \<notin> fst ` set (schema d) \<longleftrightarrow> tenure_ok (loanTenure d)"
    unfolding s set_append image_Un issues_of_field tenure_ok_def
    by (simp add: z_number_min_max)
  have e: "schema d = [] \<longleftrightarrow> in_range d"
    unfolding s in_range_def amount_ok_def rate_ok_def tenure_ok_def
    by (simp add: z_number_min z_number_min_max)
  have h: "handleSubmit schema onSubmit d = (if in_range d then Inr (onSubmit d) else Inl (schema d))"
    unfolding handleSubmit_def using e by (cases "schema d") auto
  from a r t e h show ?thesis by blast
qed

text \<open>
  C6. Each of the two schemas accepts a loan amount exactly when it is at least 1, an
  interest rate exactly when it lies between 0.1 and 50 inclusive and a tenure exactly
  when it lies between 1 and 50 inclusive (NaN lies in no range). A submit with a value
  out of range yields the non-empty list of issues of the schema, each a field with its
  message, and not the result of the handler; a submit with all values in range yields
  the result of the handler.
\<close>

theorem loan_schemas_ranges:
  "(''loanAmount'' \<notin> fst ` set (emiSchema d) \<longleftrightarrow> amount_ok (loanAmount d)) \<and>
   (''interestRate'' \<notin> fst ` set (emiSchema d) \<longleftrightarrow> rate_ok (interestRate d)) \<and>
   (''loanTenure'' \<notin> fst ` set (emiSchema d) \<longleftrightarrow> tenure_ok (loanTenure d)) \<and>
   (emiSchema d = [] \<longleftrightarrow> in_range d) \<and>
   handleSubmit emiSchema emi_onSubmit d =
     (if in_range d then Inr (emi_onSubmit d) else Inl (emiSchema d)) \<and>
   (''loanAmount'' \<notin> fst ` set (amortizationSchema d) \<longleftrightarrow> amount_ok (loanAmount d)) \<and>
   (''interestRate'' \<notin> fst ` set (amortizationSchema d) \<longleftrightarrow> rate_ok (interestRate d)) \<and>
   (''loanTenure'' \<notin> fst ` set (amortizationSchema d) \<longleftrightarrow> tenure_ok (loanTenure d)) \<and>
   (amortizationSchema d = [] \<longleftrightarrow> in_range d) \<and>
   handleSubmit amortizationSchema amortization_onSubmit d =
     (if in_range d then Inr (amortization_onSubmit d) else Inl (amortizationSchema d))"
  using schema_accepts [of emiSchema d emi_onSubmit]
        schema_accepts [of amortizationSchema d amortization_onSubmit]
  by simp

text \<open>A rate of 0.05 is rejected with the message of the lower bound.\<close>

theorem loan_schemas_ranges_witness:
  "handleSubmit emiSchema emi_onSubmit
     \<lparr>loanAmount = Num 1000000, interestRate = Num 0.05, loanTenure = Num 15\<rparr> =
   Inl [(''interestRate'', ''Interest rate must be at least 0.1%'')]"
  using loan_schemas_ranges
    [of "\<lparr>loanAmount = Num 1000000, interestRate = Num 0.05, loanTenure = Num 15\<rparr>"]
  by (simp add: in_range_def rate_ok_def js_ge_def emiSchema_def z_object_def)

subsection \<open>generateAmortizationSchedule\<close>





lemma length_schedule_rows [simp]: "length (schedule_rows e r m d b cp ci) = d"
  by (induction d arbitrary: m b cp ci) simp_all























end
